theory Spec2Isabelle
  imports Main "HOL-Library.Sublist"
begin

section \<open>Python values and exceptions\<close>

text \<open>
  The wrapper of \<^verbatim>\<open>src/HooRAGLib/Models/OpenAI.py\<close> is dynamically typed: keyword
  options, message contents and response dictionaries hold arbitrary Python values.
  \<open>pyval\<close> is the fragment of them the wrapper handles.
\<close>

datatype pyval =
    PyNone
  | PyBool bool
  | PyInt int
  | PyStr string
  | PyList "pyval list"
  | PyDict "(string \<times> pyval) list"

text \<open>Python truthiness, as used by \<^verbatim>\<open>if not API_KEY\<close> and \<^verbatim>\<open>if not ...has_embedding()\<close>.\<close>

fun truthy :: "pyval \<Rightarrow> bool" where
  "truthy PyNone = False"
| "truthy (PyBool b) = b"
| "truthy (PyInt i) = (i \<noteq> 0)"
| "truthy (PyStr s) = (s \<noteq> [])"
| "truthy (PyList xs) = (xs \<noteq> [])"
| "truthy (PyDict kvs) = (kvs \<noteq> [])"

text \<open>
  Every exception class the wrapper raises, catches or lets through is a constructor; the
  argument is the message, \<^verbatim>\<open>str(e)\<close>. \<open>AuthenticationError\<close>, \<open>APIError\<close> and
  \<open>RateLimitError\<close> are the provider SDK's classes imported by the module;
  \<open>EmbeddingError\<close> is \<^verbatim>\<open>Helpers/Errors.py\<close>. \<open>KeyboardInterrupt\<close> stands for the
  exceptions that are not subclasses of \<^verbatim>\<open>Exception\<close>.
\<close>

datatype py_error =
    ValueError string
  | TypeError string
  | AttributeError string
  | KeyError string
  | NotImplementedError string
  | EmbeddingError string
  | AuthenticationError string
  | APIError string
  | RateLimitError string
  | KeyboardInterrupt

fun str :: "py_error \<Rightarrow> string" where
  "str (ValueError m) = m"
| "str (TypeError m) = m"
| "str (AttributeError m) = m"
| "str (KeyError m) = m"
| "str (NotImplementedError m) = m"
| "str (EmbeddingError m) = m"
| "str (AuthenticationError m) = m"
| "str (APIError m) = m"
| "str (RateLimitError m) = m"
| "str KeyboardInterrupt = []"

text \<open>\<^verbatim>\<open>isinstance(e, Exception)\<close>: what \<^verbatim>\<open>except Exception\<close> catches.\<close>

fun is_Exception :: "py_error \<Rightarrow> bool" where
  "is_Exception KeyboardInterrupt = False"
| "is_Exception e = True"

type_synonym kwargs = "string \<rightharpoonup> pyval"

text \<open>A name between single quotes, as Python's messages show it.\<close>

definition quoted :: "string \<Rightarrow> string" where
  "quoted s = CHR 0x27 # s @ [CHR 0x27]"

text \<open>\<^verbatim>\<open>d[key]\<close> on a Python value.\<close>

fun subscript :: "pyval \<Rightarrow> string \<Rightarrow> py_error + pyval" where
  "subscript (PyDict kvs) k =
     (case map_of kvs k of
        None \<Rightarrow> Inl (KeyError (quoted k))
      | Some v \<Rightarrow> Inr v)"
| "subscript v k = Inl (TypeError ''object is not subscriptable'')"

section \<open>The collaborators: provider client and retriever\<close>

text \<open>
  The request of one \<^verbatim>\<open>client.chat.completions.create(model=..., messages=...,
  max_tokens=..., **kwargs)\<close> call: the three named arguments and the forwarded options.
\<close>

record request =
  model :: "string option"
  messages :: "pyval list"
  max_tokens :: int
  options :: kwargs

record ChatCompletionMessage =
  content :: pyval

record Choice =
  message :: ChatCompletionMessage

record ChatCompletion =
  choices :: "Choice list"
  usage :: pyval

record Model =
  model_id :: string

record SyncPage =
  data :: "Model list"

text \<open>
  The provider is external: its behaviour is a parameter. A client object answers
  \<^verbatim>\<open>client.models.list()\<close> and \<^verbatim>\<open>client.chat.completions.create(...)\<close>, each with a
  value or an exception.
\<close>

record OpenAI_client =
  models_list :: "py_error + SyncPage"
  chat_completions_create :: "request \<Rightarrow> py_error + ChatCompletion"

text \<open>
  A retriever object is any Python object handed to \<open>configure\<close>: its class name,
  whether \<^verbatim>\<open>isinstance(retriever, BaseRetriever)\<close> holds, and what its methods answer
  when the wrapper calls them (a value or an exception; a method the object does not have
  answers with an \<^verbatim>\<open>AttributeError\<close>). The wrapper only holds a reference: the object's
  own state, and with it these answers, may change between two calls of the wrapper.
\<close>

datatype retriever = Retriever
  (class_name: string)
  (isinstance_BaseRetriever: bool)
  (has_embedding: "py_error + pyval")
  (retrieve: "string \<Rightarrow> py_error + pyval")
  (embed_r: "OpenAI_client \<Rightarrow> py_error + pyval")

section \<open>The wrapper object\<close>

text \<open>
  The checks of the wrapper use \<^verbatim>\<open>hasattr\<close>, which asks whether an attribute exists, not
  whether it is \<^verbatim>\<open>None\<close>. An attribute is therefore \<open>Unset\<close> (never assigned) or
  \<open>Attr v\<close>; an optional attribute assigned \<^verbatim>\<open>None\<close> is \<open>Attr None\<close>.
\<close>

datatype 'a attr = Unset | Attr 'a

fun hasattr :: "'a attr \<Rightarrow> bool" where
  "hasattr Unset = False"
| "hasattr (Attr v) = True"

text \<open>Reading \<^verbatim>\<open>self.name\<close>: an attribute that was never assigned raises.\<close>

fun getattr :: "'a attr \<Rightarrow> string \<Rightarrow> py_error + 'a" where
  "getattr Unset name =
     Inl (AttributeError (quoted ''OpenAILLM'' @ '' object has no attribute '' @ quoted name))"
| "getattr (Attr v) name = Inr v"

record OpenAILLM =
  client :: "OpenAI_client attr"
  models :: "SyncPage attr"
  model_name :: "string attr"
  model_version :: "string option attr"
  system_prompt :: "string option attr"
  retriever :: "retriever option attr"

text \<open>The object before \<^verbatim>\<open>__init__\<close> has assigned anything.\<close>

definition new_object :: OpenAILLM where
  "new_object =
     \<lparr>client = Unset, models = Unset, model_name = Unset,
      model_version = Unset, system_prompt = Unset, retriever = Unset\<rparr>"

subsection \<open>Construction\<close>

text \<open>
  \<^verbatim>\<open>__init__(self, model_name, **kwargs)\<close>. \<open>env\<close> is \<^verbatim>\<open>os.environ\<close> and \<open>OpenAI\<close> the
  provider's client constructor. When \<^verbatim>\<open>api_key\<close> is among the keyword options, the call
  \<^verbatim>\<open>OpenAI(api_key=API_KEY, **kwargs)\<close> passes that keyword twice, which Python refuses
  with a \<^verbatim>\<open>TypeError\<close> before the constructor runs. Only \<^verbatim>\<open>AuthenticationError\<close> is
  caught, and it is raised again as a \<^verbatim>\<open>ValueError\<close>.
\<close>

definition init ::
  "(string \<rightharpoonup> string) \<Rightarrow> (pyval \<Rightarrow> kwargs \<Rightarrow> py_error + OpenAI_client) \<Rightarrow>
   string \<Rightarrow> kwargs \<Rightarrow> py_error + OpenAILLM" where
  "init env OpenAI model_name_arg kwargs =
     (let API_KEY =
            (if ''api_key'' \<notin> dom kwargs
             then (case env ''OPENAI_API_KEY'' of None \<Rightarrow> PyNone | Some s \<Rightarrow> PyStr s)
             else (case kwargs ''api_key'' of None \<Rightarrow> PyNone | Some v \<Rightarrow> v))
      in if \<not> truthy API_KEY
         then Inl (ValueError ''OPENAI_API_KEY environment variable is not set.'')
         else
           (case (if ''api_key'' \<in> dom kwargs
                  then Inl (TypeError (''got multiple values for keyword argument '' @ quoted ''api_key''))
                  else (case OpenAI API_KEY kwargs of
                          Inl e \<Rightarrow> Inl e
                        | Inr client_obj \<Rightarrow>
                            (case models_list client_obj of
                               Inl e \<Rightarrow> Inl e
                             | Inr models_obj \<Rightarrow> Inr (client_obj, models_obj)))) of
              Inl (AuthenticationError m) \<Rightarrow> Inl (ValueError ''Invalid OpenAI API key provided.'')
            | Inl e \<Rightarrow> Inl e
            | Inr (client_obj, models_obj) \<Rightarrow>
                Inr (new_object
                       \<lparr>client := Attr client_obj, models := Attr models_obj,
                        model_name := Attr model_name_arg, model_version := Attr None,
                        system_prompt := Attr None, retriever := Attr None\<rparr>)))"

subsection \<open>The three checks\<close>

definition check_client :: "OpenAILLM \<Rightarrow> py_error + unit" where
  "check_client self =
     (if \<not> hasattr (client self) \<and> \<not> hasattr (models self)
      then Inl (ValueError ''OpenAI client is not initialized.'')
      else Inr ())"

definition check_retriever :: "OpenAILLM \<Rightarrow> py_error + unit" where
  "check_retriever self =
     (if \<not> hasattr (retriever self)
      then Inl (ValueError
                  ''Retriever is not set. Please configure the retriever before embedding.'')
      else Inr ())"

text \<open>
  What a call of the wrapper does to its collaborators, in order: the calls of the
  retriever's methods and the requests sent to the provider.
\<close>

datatype event =
    HasEmbedding
  | Retrieve string
  | Embed
  | ChatCompletionsCreate request

definition NoneType_has_no :: "string \<Rightarrow> py_error" where
  "NoneType_has_no name =
     AttributeError (quoted ''NoneType'' @ '' object has no attribute '' @ quoted name)"

definition check_embeddings :: "OpenAILLM \<Rightarrow> (py_error + unit) \<times> event list" where
  "check_embeddings self =
     (case check_retriever self of
        Inl e \<Rightarrow> (Inl e, [])
      | Inr _ \<Rightarrow>
          (case getattr (retriever self) ''retriever'' of
             Inl e \<Rightarrow> (Inl e, [])
           | Inr None \<Rightarrow> (Inl (NoneType_has_no ''has_embedding''), [])
           | Inr (Some r) \<Rightarrow>
               (case has_embedding r of
                  Inl e \<Rightarrow> (Inl e, [HasEmbedding])
                | Inr v \<Rightarrow>
                    if \<not> truthy v
                    then (Inl (EmbeddingError
                                 ''Embeddings have not been generated. Please call the embed() method first.''),
                          [HasEmbedding])
                    else (Inr (), [HasEmbedding]))))"

subsection \<open>configure\<close>

text \<open>
  \<^verbatim>\<open>configure(self, model_version, system_prompt=None, retriever=None)\<close> assigns to
  \<^verbatim>\<open>self\<close> as it goes; the model returns the object as the call leaves it, also when
  the call raises. The result is the response dictionary.
\<close>

definition configure ::
  "OpenAILLM \<Rightarrow> string \<Rightarrow> string option \<Rightarrow> retriever option \<Rightarrow>
   (py_error + (string \<rightharpoonup> pyval)) \<times> OpenAILLM" where
  "configure self model_version_arg system_prompt_arg retriever_arg =
     (case check_client self of
        Inl e \<Rightarrow> (Inl e, self)
      | Inr _ \<Rightarrow>
          if model_version_arg = []
          then (Inl (ValueError ''Model version must be specified.''), self)
          else
            (case getattr (models self) ''models'' of
               Inl e \<Rightarrow> (Inl e, self)
             | Inr models_obj \<Rightarrow>
                 if model_version_arg \<notin> set (map model_id (data models_obj))
                 then (Inl (ValueError (''Model version '' @ quoted model_version_arg @
                                        '' is not available as an OpenAI models.'')), self)
                 else
                   (let self1 = self\<lparr>model_version := Attr (Some model_version_arg)\<rparr>;
                        self2 = self1\<lparr>system_prompt := Attr system_prompt_arg\<rparr>
                    in if (case retriever_arg of
                             None \<Rightarrow> False
                           | Some r \<Rightarrow> \<not> isinstance_BaseRetriever r)
                       then (Inl (TypeError ''Retriever must be an instance of BaseRetriever.''),
                             self2)
                       else
                         (let self3 = self2\<lparr>retriever := Attr retriever_arg\<rparr>
                          in case getattr (model_name self3) ''model_name'' of
                               Inl e \<Rightarrow> (Inl e, self3)
                             | Inr name \<Rightarrow>
                                 (Inr [''status'' \<mapsto> PyBool True,
                                       ''message'' \<mapsto>
                                         PyStr (''OpenAI model '' @ quoted name @
                                                '' configured successfully.''),
                                       ''model_version'' \<mapsto> PyStr model_version_arg,
                                       ''retriever'' \<mapsto>
                                         PyStr (case retriever_arg of
                                                  None \<Rightarrow> ''NoneType''
                                                | Some r \<Rightarrow> class_name r)],
                                  self3)))))"

subsection \<open>embed\<close>

text \<open>The body of the \<^verbatim>\<open>try\<close> block of \<^verbatim>\<open>embed\<close>.\<close>

definition embed_try :: "OpenAILLM \<Rightarrow> (py_error + (string \<rightharpoonup> pyval)) \<times> event list" where
  "embed_try self =
     (case getattr (retriever self) ''retriever'' of
        Inl e \<Rightarrow> (Inl e, [])
      | Inr None \<Rightarrow> (Inl (NoneType_has_no ''embed''), [])
      | Inr (Some r) \<Rightarrow>
          (case getattr (client self) ''client'' of
             Inl e \<Rightarrow> (Inl e, [])
           | Inr client_obj \<Rightarrow>
               (case embed_r r client_obj of
                  Inl e \<Rightarrow> (Inl e, [Embed])
                | Inr response \<Rightarrow>
                    (case subscript response ''data'' of
                       Inl e \<Rightarrow> (Inl e, [Embed])
                     | Inr embeddings \<Rightarrow>
                         (case getattr (model_name self) ''model_name'' of
                            Inl e \<Rightarrow> (Inl e, [Embed])
                          | Inr name \<Rightarrow>
                              (Inr [''status'' \<mapsto> PyBool True,
                                    ''message'' \<mapsto> PyStr ''Embeddings generated successfully.'',
                                    ''embeddings'' \<mapsto> embeddings,
                                    ''model'' \<mapsto> PyStr name],
                               [Embed]))))))"

definition embed :: "OpenAILLM \<Rightarrow> (py_error + (string \<rightharpoonup> pyval)) \<times> event list" where
  "embed self =
     (case check_client self of
        Inl e \<Rightarrow> (Inl e, [])
      | Inr _ \<Rightarrow>
          (case check_retriever self of
             Inl e \<Rightarrow> (Inl e, [])
           | Inr _ \<Rightarrow>
               (case embed_try self of
                  (Inl e, tr) \<Rightarrow>
                    if is_Exception e
                    then (Inl (EmbeddingError (''Failed to generate embeddings: '' @ str e)), tr)
                    else (Inl e, tr)
                | (Inr response, tr) \<Rightarrow> (Inr response, tr))))"

subsection \<open>generate\<close>

text \<open>
  The content of the system message, the same expression in both branches of
  \<^verbatim>\<open>generate\<close>:
  \<^verbatim>\<open>self.system_prompt if 'system_prompt' not in kwargs
    else kwargs.get('system_prompt', 'You are a helpful assistant.')\<close>.
\<close>

definition system_content :: "OpenAILLM \<Rightarrow> kwargs \<Rightarrow> py_error + pyval" where
  "system_content self kwargs =
     (if ''system_prompt'' \<notin> dom kwargs
      then (case getattr (system_prompt self) ''system_prompt'' of
              Inl e \<Rightarrow> Inl e
            | Inr None \<Rightarrow> Inr PyNone
            | Inr (Some s) \<Rightarrow> Inr (PyStr s))
      else Inr (case kwargs ''system_prompt'' of
                  None \<Rightarrow> PyStr ''You are a helpful assistant.''
                | Some v \<Rightarrow> v))"

text \<open>
  The call \<^verbatim>\<open>create(model=..., messages=..., max_tokens=..., **kwargs)\<close> once its
  arguments are evaluated. Python refuses a keyword given twice before the provider is
  reached; otherwise the request goes out and the provider answers.
\<close>

definition create_call ::
  "OpenAI_client \<Rightarrow> string option \<Rightarrow> pyval list \<Rightarrow> int \<Rightarrow> kwargs \<Rightarrow>
   (py_error + ChatCompletion) \<times> event list" where
  "create_call client_obj model_arg messages_arg max_tokens_arg kwargs =
     (if ''model'' \<in> dom kwargs \<or> ''messages'' \<in> dom kwargs \<or> ''max_tokens'' \<in> dom kwargs
      then (Inl (TypeError ''create() got multiple values for keyword argument''), [])
      else
        (let req = \<lparr>model = model_arg, messages = messages_arg,
                    max_tokens = max_tokens_arg, options = kwargs\<rparr>
         in (chat_completions_create client_obj req, [ChatCompletionsCreate req])))"

text \<open>The branch \<^verbatim>\<open>if is_rag:\<close> up to the provider's response.\<close>

definition rag_completion ::
  "OpenAILLM \<Rightarrow> string \<Rightarrow> int \<Rightarrow> kwargs \<Rightarrow> (py_error + ChatCompletion) \<times> event list" where
  "rag_completion self user_prompt max_tokens_arg kwargs =
     (case check_retriever self of
        Inl e \<Rightarrow> (Inl e, [])
      | Inr _ \<Rightarrow>
     (case check_embeddings self of
        (Inl e, tr) \<Rightarrow> (Inl e, tr)
      | (Inr _, tr) \<Rightarrow>
     (case getattr (client self) ''client'' of
        Inl e \<Rightarrow> (Inl e, tr)
      | Inr client_obj \<Rightarrow>
     (case getattr (model_version self) ''model_version'' of
        Inl e \<Rightarrow> (Inl e, tr)
      | Inr mv \<Rightarrow>
     (case system_content self kwargs of
        Inl e \<Rightarrow> (Inl e, tr)
      | Inr sc \<Rightarrow>
     (case getattr (retriever self) ''retriever'' of
        Inl e \<Rightarrow> (Inl e, tr)
      | Inr None \<Rightarrow> (Inl (NoneType_has_no ''retrieve''), tr)
      | Inr (Some r) \<Rightarrow>
     (case retrieve r user_prompt of
        Inl e \<Rightarrow> (Inl e, tr @ [Retrieve user_prompt])
      | Inr docs \<Rightarrow>
     (case create_call client_obj mv
             [PyDict [(''role'', PyStr ''system''), (''content'', sc)],
              PyDict [(''role'', PyStr ''user''), (''content'', PyStr user_prompt)],
              PyDict [(''role'', PyStr ''assistant''), (''content'', docs)]]
             max_tokens_arg kwargs of
        (res, tr') \<Rightarrow> (res, tr @ [Retrieve user_prompt] @ tr')))))))))"

text \<open>The \<^verbatim>\<open>else:\<close> branch up to the provider's response.\<close>

definition plain_completion ::
  "OpenAILLM \<Rightarrow> string \<Rightarrow> int \<Rightarrow> kwargs \<Rightarrow> (py_error + ChatCompletion) \<times> event list" where
  "plain_completion self user_prompt max_tokens_arg kwargs =
     (case getattr (client self) ''client'' of
        Inl e \<Rightarrow> (Inl e, [])
      | Inr client_obj \<Rightarrow>
     (case getattr (model_version self) ''model_version'' of
        Inl e \<Rightarrow> (Inl e, [])
      | Inr mv \<Rightarrow>
     (case system_content self kwargs of
        Inl e \<Rightarrow> (Inl e, [])
      | Inr sc \<Rightarrow>
          create_call client_obj mv
            [PyDict [(''role'', PyStr ''system''), (''content'', sc)],
             PyDict [(''role'', PyStr ''user''), (''content'', PyStr user_prompt)]]
            max_tokens_arg kwargs)))"

definition generate ::
  "OpenAILLM \<Rightarrow> string \<Rightarrow> bool \<Rightarrow> int \<Rightarrow> kwargs \<Rightarrow>
   (py_error + (string \<rightharpoonup> pyval)) \<times> event list" where
  "generate self user_prompt is_rag max_tokens_arg kwargs =
     (case check_client self of
        Inl e \<Rightarrow> (Inl e, [])
      | Inr _ \<Rightarrow>
          (case (if is_rag
                 then rag_completion self user_prompt max_tokens_arg kwargs
                 else plain_completion self user_prompt max_tokens_arg kwargs) of
             (Inl e, tr) \<Rightarrow> (Inl e, tr)
           | (Inr response, tr) \<Rightarrow>
               (case getattr (model_name self) ''model_name'' of
                  Inl e \<Rightarrow> (Inl e, tr)
                | Inr name \<Rightarrow>
                    (Inr [''status'' \<mapsto> PyBool True,
                          ''message'' \<mapsto> PyStr ''Response generated successfully.'',
                          ''choices'' \<mapsto>
                            PyList (map (\<lambda>choice. content (message choice)) (choices response)),
                          ''model'' \<mapsto> PyStr name,
                          ''usage'' \<mapsto> usage response],
                     tr))))"

subsection \<open>Wrapper instances\<close>

text \<open>
  A wrapper instance is an object whose construction succeeded, after any number of
  \<open>configure\<close> calls (failed ones included, with whatever they assigned) and any change
  of state of the retriever object it refers to. \<open>embed\<close> and \<open>generate\<close> assign nothing.
\<close>

inductive instance_of_OpenAILLM :: "OpenAILLM \<Rightarrow> bool" where
  constructed:
    "init env OpenAI model_name_arg kwargs = Inr self \<Longrightarrow> instance_of_OpenAILLM self"
| configured:
    "instance_of_OpenAILLM self \<Longrightarrow>
     configure self model_version_arg system_prompt_arg retriever_arg = (res, self') \<Longrightarrow>
     instance_of_OpenAILLM self'"
| retriever_changed:
    "instance_of_OpenAILLM self \<Longrightarrow> retriever self = Attr (Some r) \<Longrightarrow>
     class_name r' = class_name r \<Longrightarrow>
     isinstance_BaseRetriever r' = isinstance_BaseRetriever r \<Longrightarrow>
     instance_of_OpenAILLM (self\<lparr>retriever := Attr (Some r')\<rparr>)"

subsection \<open>The test fixture\<close>

text \<open>
  The provider of \<^verbatim>\<open>tests/models/test_OpenAI.py\<close>: it lists the models
  \<^verbatim>\<open>gpt-3.5-turbo\<close> and \<^verbatim>\<open>gpt-4\<close> and answers every request with five choices,
  \<^verbatim>\<open>a\<close> to \<^verbatim>\<open>e\<close>. The key comes from the environment, as in
  \<^verbatim>\<open>test_openai_llm_initialization\<close>.
\<close>

definition mock_completion :: ChatCompletion where
  "mock_completion =
     \<lparr>choices = map (\<lambda>c. \<lparr>message = \<lparr>content = PyStr [c]\<rparr>\<rparr>) ''abcde'',
      usage = PyNone\<rparr>"

definition mock_client :: OpenAI_client where
  "mock_client =
     \<lparr>models_list = Inr \<lparr>data = [\<lparr>model_id = ''gpt-3.5-turbo''\<rparr>, \<lparr>model_id = ''gpt-4''\<rparr>]\<rparr>,
      chat_completions_create = (\<lambda>req. Inr mock_completion)\<rparr>"

definition mock_OpenAI :: "pyval \<Rightarrow> kwargs \<Rightarrow> py_error + OpenAI_client" where
  "mock_OpenAI api_key kwargs = Inr mock_client"

definition mock_env :: "string \<rightharpoonup> string" where
  "mock_env = [''OPENAI_API_KEY'' \<mapsto> ''test-key'']"

text \<open>A provider that rejects the key when the models are listed.\<close>

definition rejecting_OpenAI :: "pyval \<Rightarrow> kwargs \<Rightarrow> py_error + OpenAI_client" where
  "rejecting_OpenAI api_key kwargs =
     Inr (mock_client\<lparr>models_list := Inl (AuthenticationError ''Incorrect API key provided'')\<rparr>)"

text \<open>The wrapper \<^verbatim>\<open>OpenAILLM(model_name="test-model")\<close> built on that provider.\<close>

definition test_llm :: OpenAILLM where
  "test_llm =
     \<lparr>client = Attr mock_client,
      models = Attr \<lparr>data = [\<lparr>model_id = ''gpt-3.5-turbo''\<rparr>, \<lparr>model_id = ''gpt-4''\<rparr>]\<rparr>,
      model_name = Attr ''test-model'', model_version = Attr None,
      system_prompt = Attr None, retriever = Attr None\<rparr>"

text \<open>
  Retrievers: one that is a \<^verbatim>\<open>BaseRetriever\<close> with embeddings generated, the same before
  \<^verbatim>\<open>embed\<close>, and an object that is no \<^verbatim>\<open>BaseRetriever\<close>.
\<close>

definition ready_retriever :: retriever where
  "ready_retriever =
     Retriever ''MockRetriever'' True (Inr (PyBool True))
       (\<lambda>query. Inr (PyList [PyStr ''doc'']))
       (\<lambda>client_obj. Inr (PyDict [(''data'', PyList [])]))"

definition fresh_retriever :: retriever where
  "fresh_retriever =
     Retriever ''MockRetriever'' True (Inr (PyBool False))
       (\<lambda>query. Inr (PyList [PyStr ''doc'']))
       (\<lambda>client_obj. Inr (PyDict [(''data'', PyList [])]))"

definition not_a_retriever :: retriever where
  "not_a_retriever =
     Retriever ''str'' False
       (Inl (AttributeError ''has_embedding'')) (\<lambda>query. Inl (AttributeError ''retrieve''))
       (\<lambda>client_obj. Inl (AttributeError ''embed''))"

text \<open>
  The fixture after \<^verbatim>\<open>configure("gpt-4", retriever=r)\<close>.
\<close>

definition configured_llm :: "retriever option \<Rightarrow> OpenAILLM" where
  "configured_llm r = snd (configure test_llm ''gpt-4'' None r)"

section \<open>Facts about the fixture\<close>

lemma init_test: "init mock_env mock_OpenAI ''test-model'' Map.empty = Inr test_llm"
  by (simp add: init_def mock_env_def mock_OpenAI_def mock_client_def test_llm_def new_object_def)

lemma configured_llm_eq:
  "configured_llm None = test_llm\<lparr>model_version := Attr (Some ''gpt-4'')\<rparr>"
  "configured_llm (Some ready_retriever) =
     test_llm\<lparr>model_version := Attr (Some ''gpt-4''), retriever := Attr (Some ready_retriever)\<rparr>"
  "configured_llm (Some fresh_retriever) =
     test_llm\<lparr>model_version := Attr (Some ''gpt-4''), retriever := Attr (Some fresh_retriever)\<rparr>"
  by (simp_all add: configured_llm_def configure_def check_client_def test_llm_def Let_def
      ready_retriever_def fresh_retriever_def)

lemma rag_trace:
  "snd (generate (configured_llm (Some ready_retriever)) ''hi'' True 10 Map.empty) =
     [HasEmbedding, Retrieve ''hi'',
      ChatCompletionsCreate
        \<lparr>model = Some ''gpt-4'',
         messages = [PyDict [(''role'', PyStr ''system''), (''content'', PyNone)],
                     PyDict [(''role'', PyStr ''user''), (''content'', PyStr ''hi'')],
                     PyDict [(''role'', PyStr ''assistant''), (''content'', PyList [PyStr ''doc''])]],
         max_tokens = 10, options = Map.empty\<rparr>]"
  unfolding configured_llm_eq
  by (simp add: generate_def rag_completion_def check_embeddings_def
      check_retriever_def system_content_def create_call_def check_client_def test_llm_def
      mock_client_def ready_retriever_def Let_def)


section \<open>Every wrapper instance has its six attributes\<close>

lemma init_fields:
  "init env OpenAI name kwargs = Inr self \<Longrightarrow>
   \<exists>client_obj models_obj. self =
     \<lparr>client = Attr client_obj, models = Attr models_obj, model_name = Attr name,
      model_version = Attr None, system_prompt = Attr None, retriever = Attr None\<rparr>"
  by (auto simp: init_def new_object_def Let_def split: if_splits sum.splits py_error.splits)

lemma configure_hasattr:
  "configure self mv sp r = (res, self') \<Longrightarrow>
   (hasattr (client self) \<longrightarrow> hasattr (client self')) \<and>
   (hasattr (models self) \<longrightarrow> hasattr (models self')) \<and>
   (hasattr (model_name self) \<longrightarrow> hasattr (model_name self')) \<and>
   (hasattr (model_version self) \<longrightarrow> hasattr (model_version self')) \<and>
   (hasattr (system_prompt self) \<longrightarrow> hasattr (system_prompt self')) \<and>
   (hasattr (retriever self) \<longrightarrow> hasattr (retriever self'))"
  by (auto simp: configure_def Let_def split: if_splits sum.splits option.splits)

lemma instance_attrs:
  "instance_of_OpenAILLM self \<Longrightarrow>
   hasattr (client self) \<and> hasattr (models self) \<and> hasattr (model_name self) \<and>
   hasattr (model_version self) \<and> hasattr (system_prompt self) \<and> hasattr (retriever self)"
proof (induction rule: instance_of_OpenAILLM.induct)
  case (constructed env OpenAI model_name_arg kwargs self)
  then show ?case by (auto dest: init_fields)
next
  case (configured self mv sp r res self')
  then show ?case using configure_hasattr by blast
next
  case (retriever_changed self r r')
  then show ?case by simp
qed

lemma hasattr_Attr: "hasattr a \<Longrightarrow> \<exists>v. a = Attr v"
  by (cases a) simp_all

lemma instance_check_client: "instance_of_OpenAILLM self \<Longrightarrow> check_client self = Inr ()"
  using instance_attrs [of self] by (simp add: check_client_def)

lemma instance_test_llm: "instance_of_OpenAILLM test_llm"
  using init_test by (rule constructed)

lemma instance_configured_llm: "instance_of_OpenAILLM (configured_llm r)"
  unfolding configured_llm_def
  by (rule configured [OF instance_test_llm]) (rule surjective_pairing)

section \<open>The requests of generate\<close>

lemma generate_trace:
  "snd (generate self user_prompt is_rag mt kwargs) =
     (case check_client self of
        Inl e \<Rightarrow> []
      | Inr _ \<Rightarrow> snd (if is_rag then rag_completion self user_prompt mt kwargs
                      else plain_completion self user_prompt mt kwargs))"
  by (auto simp: generate_def split: sum.splits prod.splits)

lemma rag_completion_request:
  assumes "ChatCompletionsCreate req \<in> set (snd (rag_completion self user_prompt mt kwargs))"
  shows "\<exists>r docs sc mv.
           retriever self = Attr (Some r) \<and> retrieve r user_prompt = Inr docs \<and>
           system_content self kwargs = Inr sc \<and> model_version self = Attr mv \<and>
           req = \<lparr>model = mv,
                  messages = [PyDict [(''role'', PyStr ''system''), (''content'', sc)],
                    PyDict [(''role'', PyStr ''user''), (''content'', PyStr user_prompt)],
                    PyDict [(''role'', PyStr ''assistant''), (''content'', docs)]],
                  max_tokens = mt, options = kwargs\<rparr> \<and>
           snd (rag_completion self user_prompt mt kwargs) =
             [HasEmbedding, Retrieve user_prompt, ChatCompletionsCreate req]"
proof (cases "retriever self")
  case Unset
  with assms show ?thesis
    by (simp add: rag_completion_def check_retriever_def)
next
  case (Attr ro)
  show ?thesis
  proof (cases ro)
    case None
    with Attr assms show ?thesis
      by (simp add: rag_completion_def check_retriever_def check_embeddings_def)
  next
    case (Some r)
    with Attr assms show ?thesis
      by (cases "client self"; cases "model_version self")
        (auto simp: rag_completion_def check_retriever_def check_embeddings_def
          create_call_def Let_def split: sum.splits if_splits)
  qed
qed

lemma plain_completion_request:
  assumes "ChatCompletionsCreate req \<in> set (snd (plain_completion self user_prompt mt kwargs))"
  shows "\<exists>sc mv.
           system_content self kwargs = Inr sc \<and> model_version self = Attr mv \<and>
           req = \<lparr>model = mv,
                  messages = [PyDict [(''role'', PyStr ''system''), (''content'', sc)],
                    PyDict [(''role'', PyStr ''user''), (''content'', PyStr user_prompt)]],
                  max_tokens = mt, options = kwargs\<rparr> \<and>
           snd (plain_completion self user_prompt mt kwargs) = [ChatCompletionsCreate req]"
  using assms
  by (cases "client self"; cases "model_version self")
    (auto simp: plain_completion_def create_call_def Let_def split: sum.splits if_splits)


lemma system_content_returns:
  "system_prompt self = Attr sp \<Longrightarrow> \<exists>sc. system_content self kwargs = Inr sc"
  by (cases sp) (simp_all add: system_content_def)

lemma generate_rag_sends:
  assumes "instance_of_OpenAILLM self"
    and "retriever self = Attr (Some r)"
    and "has_embedding r = Inr v" and "truthy v"
    and "retrieve r user_prompt = Inr docs"
    and "''model'' \<notin> dom kwargs" and "''messages'' \<notin> dom kwargs"
    and "''max_tokens'' \<notin> dom kwargs"
  shows "\<exists>req. snd (generate self user_prompt True mt kwargs) =
           [HasEmbedding, Retrieve user_prompt, ChatCompletionsCreate req]"
proof -
  from instance_attrs [OF assms(1)] obtain client_obj mv sp where
    a: "client self = Attr client_obj" "model_version self = Attr mv"
       "system_prompt self = Attr sp"
    by (auto dest!: hasattr_Attr)
  from system_content_returns [OF a(3)] obtain sc where
    sc: "system_content self kwargs = Inr sc" by blast
  from a sc assms(2-) instance_check_client [OF assms(1)] show ?thesis
    by (simp add: generate_trace rag_completion_def check_retriever_def check_embeddings_def
        create_call_def Let_def)
qed


lemma system_content_option:
  "kwargs ''system_prompt'' = Some v \<Longrightarrow> system_content self kwargs = Inr v"
  by (auto simp: system_content_def)

lemma generate_plain_trace:
  assumes "instance_of_OpenAILLM self"
    and "model_version self = Attr mv"
    and "system_content self kwargs = Inr sc"
    and "''model'' \<notin> dom kwargs" and "''messages'' \<notin> dom kwargs"
    and "''max_tokens'' \<notin> dom kwargs"
  shows "snd (generate self user_prompt False mt kwargs) =
           [ChatCompletionsCreate
              \<lparr>model = mv,
               messages = [PyDict [(''role'', PyStr ''system''), (''content'', sc)],
                           PyDict [(''role'', PyStr ''user''), (''content'', PyStr user_prompt)]],
               max_tokens = mt, options = kwargs\<rparr>]"
proof -
  from instance_attrs [OF assms(1)] obtain client_obj where
    a: "client self = Attr client_obj"
    by (auto dest!: hasattr_Attr)
  from a assms(2-) instance_check_client [OF assms(1)] show ?thesis
    by (simp add: generate_trace plain_completion_def create_call_def Let_def)
qed

lemma generate_rag_trace:
  assumes "instance_of_OpenAILLM self"
    and "model_version self = Attr mv"
    and "system_content self kwargs = Inr sc"
    and "retriever self = Attr (Some r)"
    and "has_embedding r = Inr (PyBool True)"
    and "retrieve r user_prompt = Inr docs"
    and "''model'' \<notin> dom kwargs" and "''messages'' \<notin> dom kwargs"
    and "''max_tokens'' \<notin> dom kwargs"
  shows "snd (generate self user_prompt True mt kwargs) =
           [HasEmbedding, Retrieve user_prompt,
            ChatCompletionsCreate
              \<lparr>model = mv,
               messages = [PyDict [(''role'', PyStr ''system''), (''content'', sc)],
                           PyDict [(''role'', PyStr ''user''), (''content'', PyStr user_prompt)],
                           PyDict [(''role'', PyStr ''assistant''), (''content'', docs)]],
               max_tokens = mt, options = kwargs\<rparr>]"
proof -
  from instance_attrs [OF assms(1)] obtain client_obj where
    a: "client self = Attr client_obj"
    by (auto dest!: hasattr_Attr)
  from a assms(2-) instance_check_client [OF assms(1)] show ?thesis
    by (simp add: generate_trace rag_completion_def check_retriever_def check_embeddings_def
        create_call_def Let_def)
qed

section \<open>The claims\<close>

subsection \<open>C1: a retriever that is None\<close>

text \<open>
  C1 says that on a wrapper whose retriever was never set (it is \<^verbatim>\<open>None\<close>),
  \<^verbatim>\<open>generate\<close> with \<^verbatim>\<open>is_rag=True\<close> and \<^verbatim>\<open>embed\<close> both fail with the
  retriever-is-not-set \<^verbatim>\<open>ValueError\<close>, as the docstrings of \<^verbatim>\<open>embed\<close>, \<^verbatim>\<open>generate\<close>
  and \<^verbatim>\<open>_check_retriever\<close> promise. The check is \<^verbatim>\<open>hasattr(self, 'retriever')\<close>, and
  \<^verbatim>\<open>__init__\<close> assigns \<^verbatim>\<open>None\<close> to the attribute, so the check passes. On the freshly
  constructed fixture \<^verbatim>\<open>generate\<close> ends in the \<^verbatim>\<open>AttributeError\<close> of
  \<^verbatim>\<open>None.has_embedding\<close>, and \<^verbatim>\<open>embed\<close> wraps the \<^verbatim>\<open>AttributeError\<close> of
  \<^verbatim>\<open>None.embed\<close> into an \<^verbatim>\<open>EmbeddingError\<close>.
\<close>

theorem generate_embed_retriever_None:
  "init mock_env mock_OpenAI ''test-model'' Map.empty = Inr test_llm \<and>
   retriever test_llm = Attr None \<and>
   generate test_llm ''hi'' True 10 Map.empty =
     (Inl (AttributeError
             (quoted ''NoneType'' @ '' object has no attribute '' @ quoted ''has_embedding'')), []) \<and>
   embed test_llm =
     (Inl (EmbeddingError
             (''Failed to generate embeddings: '' @
              quoted ''NoneType'' @ '' object has no attribute '' @ quoted ''embed'')), [])"
  by (simp add: init_test generate_def embed_def embed_try_def rag_completion_def
      check_embeddings_def check_retriever_def check_client_def NoneType_has_no_def test_llm_def)

subsection \<open>C2: configure is not atomic\<close>

text \<open>
  C2 as stated: when \<^verbatim>\<open>configure\<close> fails, in particular with the \<^verbatim>\<open>TypeError\<close> for a
  retriever that is no \<^verbatim>\<open>BaseRetriever\<close>, none of \<^verbatim>\<open>model_version\<close>,
  \<^verbatim>\<open>system_prompt\<close>, \<^verbatim>\<open>retriever\<close> has changed. It fails on the fixture:
  \<^verbatim>\<open>configure("gpt-4", "sp", retriever)\<close> with such an object raises the \<^verbatim>\<open>TypeError\<close>
  after \<^verbatim>\<open>model_version\<close> and \<^verbatim>\<open>system_prompt\<close> have been assigned.
\<close>

theorem configure_TypeError_keeps_assignments:
  "init mock_env mock_OpenAI ''test-model'' Map.empty = Inr test_llm \<and>
   configure test_llm ''gpt-4'' (Some ''sp'') (Some not_a_retriever) =
     (Inl (TypeError ''Retriever must be an instance of BaseRetriever.''),
      test_llm\<lparr>model_version := Attr (Some ''gpt-4''), system_prompt := Attr (Some ''sp'')\<rparr>) \<and>
   model_version (snd (configure test_llm ''gpt-4'' (Some ''sp'') (Some not_a_retriever)))
     \<noteq> model_version test_llm \<and>
   system_prompt (snd (configure test_llm ''gpt-4'' (Some ''sp'') (Some not_a_retriever)))
     \<noteq> system_prompt test_llm"
  by (simp add: init_test configure_def check_client_def test_llm_def Let_def not_a_retriever_def)

text \<open>
  C2 as amended: on every wrapper instance, a failing \<^verbatim>\<open>configure\<close> leaves
  \<^verbatim>\<open>retriever\<close> as it was. It fails either with a \<^verbatim>\<open>ValueError\<close> (empty or unavailable
  model version), and then the whole object is unchanged, or with the \<^verbatim>\<open>TypeError\<close> of
  the retriever check, and then \<^verbatim>\<open>model_version\<close> and \<^verbatim>\<open>system_prompt\<close> hold the
  supplied values.
\<close>

theorem configure_failure_state:
  assumes "instance_of_OpenAILLM self"
    and "configure self mv sp r = (Inl e, self')"
  shows "retriever self' = retriever self \<and>
         ((\<exists>msg. e = ValueError msg) \<and> self' = self \<or>
          e = TypeError ''Retriever must be an instance of BaseRetriever.'' \<and>
          self' = self\<lparr>model_version := Attr (Some mv), system_prompt := Attr sp\<rparr>)"
proof -
  from assms(1) have "hasattr (models self)" "hasattr (model_name self)"
    using instance_attrs by blast+
  then obtain m n where "models self = Attr m" "model_name self = Attr n"
    by (auto dest!: hasattr_Attr)
  with assms(2) instance_check_client [OF assms(1)] show ?thesis
    by (auto simp: configure_def Let_def split: if_splits option.splits)
qed

text \<open>The amended C2 on the fixture, at the failing retriever check.\<close>

theorem configure_failure_state_witness:
  "instance_of_OpenAILLM test_llm \<and>
   configure test_llm ''gpt-4'' (Some ''sp'') (Some not_a_retriever) =
     (Inl (TypeError ''Retriever must be an instance of BaseRetriever.''),
      test_llm\<lparr>model_version := Attr (Some ''gpt-4''), system_prompt := Attr (Some ''sp'')\<rparr>) \<and>
   retriever (test_llm\<lparr>model_version := Attr (Some ''gpt-4''), system_prompt := Attr (Some ''sp'')\<rparr>)
     = retriever test_llm"
proof -
  have c: "configure test_llm ''gpt-4'' (Some ''sp'') (Some not_a_retriever) =
     (Inl (TypeError ''Retriever must be an instance of BaseRetriever.''),
      test_llm\<lparr>model_version := Attr (Some ''gpt-4''), system_prompt := Attr (Some ''sp'')\<rparr>)"
    by (simp add: configure_def check_client_def test_llm_def Let_def not_a_retriever_def)
  from configure_failure_state [OF instance_test_llm c] instance_test_llm c show ?thesis by simp
qed

subsection \<open>C3: a rejected credential\<close>

text \<open>
  C3 says that a credential the provider rejects makes construction fail with
  \<^verbatim>\<open>AuthenticationError\<close>, a kind distinct from the error for a missing credential; the
  docstring of \<^verbatim>\<open>__init__\<close> says the same. The code catches the provider's
  \<^verbatim>\<open>AuthenticationError\<close> and raises a \<^verbatim>\<open>ValueError\<close>, the class it also raises for
  a missing credential: on the rejecting provider and on an empty environment the two
  constructions end in the same exception class, told apart by the message only.
\<close>

theorem init_rejected_key_ValueError:
  "init mock_env rejecting_OpenAI ''test-model'' Map.empty =
     Inl (ValueError ''Invalid OpenAI API key provided.'') \<and>
   init Map.empty mock_OpenAI ''test-model'' Map.empty =
     Inl (ValueError ''OPENAI_API_KEY environment variable is not set.'')"
  by (simp add: init_def mock_env_def rejecting_OpenAI_def mock_OpenAI_def mock_client_def)

subsection \<open>C4: a model version the provider does not list\<close>

text \<open>
  C4: for every wrapper instance and every model version that is not among the ids of
  the provider's model list, \<^verbatim>\<open>configure\<close> fails with a \<^verbatim>\<open>ValueError\<close> whose message
  contains the version, and the object, \<^verbatim>\<open>model_version\<close> included, is unchanged.
\<close>

theorem configure_unavailable_model_version:
  assumes "instance_of_OpenAILLM self"
    and "models self = Attr models_obj"
    and "mv \<notin> set (map model_id (data models_obj))"
  shows "\<exists>msg. configure self mv sp r = (Inl (ValueError msg), self) \<and> sublist mv msg"
proof (cases "mv = []")
  case True
  then show ?thesis
    using instance_check_client [OF assms(1)] by (simp add: configure_def)
next
  case False
  have "sublist mv (''Model version '' @ quoted mv @ '' is not available as an OpenAI models.'')"
    unfolding quoted_def sublist_def
    by (rule exI [of _ "''Model version '' @ [CHR 0x27]"],
        rule exI [of _ "CHR 0x27 # '' is not available as an OpenAI models.''"]) simp
  with False assms(2,3) show ?thesis
    using instance_check_client [OF assms(1)] by (simp add: configure_def)
qed

text \<open>C4 on the fixture, for the version \<^verbatim>\<open>bad-model\<close>.\<close>

theorem configure_unavailable_model_version_witness:
  "instance_of_OpenAILLM test_llm \<and>
   models test_llm = Attr \<lparr>data = [\<lparr>model_id = ''gpt-3.5-turbo''\<rparr>, \<lparr>model_id = ''gpt-4''\<rparr>]\<rparr> \<and>
   ''bad-model'' \<notin> set (map model_id [\<lparr>model_id = ''gpt-3.5-turbo''\<rparr>, \<lparr>model_id = ''gpt-4''\<rparr>]) \<and>
   (\<exists>msg. configure test_llm ''bad-model'' None None = (Inl (ValueError msg), test_llm) \<and>
          sublist ''bad-model'' msg)"
proof -
  have m: "models test_llm = Attr \<lparr>data = [\<lparr>model_id = ''gpt-3.5-turbo''\<rparr>, \<lparr>model_id = ''gpt-4''\<rparr>]\<rparr>"
    by (simp add: test_llm_def)
  have n: "''bad-model'' \<notin> set (map model_id (data \<lparr>data = [\<lparr>model_id = ''gpt-3.5-turbo''\<rparr>, \<lparr>model_id = ''gpt-4''\<rparr>]\<rparr>))"
    by simp
  from configure_unavailable_model_version [OF instance_test_llm m n, of None None] instance_test_llm m n
  show ?thesis by simp
qed

subsection \<open>C5: the default system prompt\<close>

text \<open>
  C5 says that without a \<^verbatim>\<open>system_prompt\<close> option and without a stored system prompt
  the system message is the default \<^verbatim>\<open>You are a helpful assistant.\<close>. The code writes
  that default as the fallback of \<^verbatim>\<open>kwargs.get('system_prompt', ...)\<close>, which is only
  evaluated when the option is present, so the default is never used: on the fixture
  configured without a system prompt, the request carries \<^verbatim>\<open>None\<close> as the content of
  the system message.
\<close>

theorem generate_system_content_None:
  "system_prompt (configured_llm None) = Attr None \<and>
   snd (generate (configured_llm None) ''hi'' False 10 Map.empty) =
     [ChatCompletionsCreate
        \<lparr>model = Some ''gpt-4'',
         messages = [PyDict [(''role'', PyStr ''system''), (''content'', PyNone)],
                     PyDict [(''role'', PyStr ''user''), (''content'', PyStr ''hi'')]],
         max_tokens = 10, options = Map.empty\<rparr>]"
  by (simp add: configured_llm_eq generate_def plain_completion_def system_content_def
      create_call_def check_client_def test_llm_def mock_client_def Let_def)

subsection \<open>C6: generation with RAG before embedding\<close>

text \<open>
  C6: for every wrapper instance whose retriever is present and answers
  \<^verbatim>\<open>has_embedding()\<close> with \<^verbatim>\<open>False\<close>, \<^verbatim>\<open>generate\<close> with \<^verbatim>\<open>is_rag=True\<close> fails with
  the \<^verbatim>\<open>EmbeddingError\<close> that tells the caller to call \<^verbatim>\<open>embed()\<close> first, and the call
  sends no request to the provider and does not call \<^verbatim>\<open>retrieve\<close>, so that no message
  list is built.
\<close>

theorem generate_rag_without_embeddings:
  assumes "instance_of_OpenAILLM self"
    and "retriever self = Attr (Some r)"
    and "has_embedding r = Inr (PyBool False)"
  shows "\<exists>tr. generate self user_prompt True max_tokens_arg kwargs =
           (Inl (EmbeddingError
              ''Embeddings have not been generated. Please call the embed() method first.''), tr) \<and>
         (\<forall>req. ChatCompletionsCreate req \<notin> set tr) \<and> (\<forall>query. Retrieve query \<notin> set tr)"
  using assms(2,3) instance_check_client [OF assms(1)]
  by (simp add: generate_def rag_completion_def check_embeddings_def check_retriever_def)

text \<open>C6 on the fixture configured with a retriever that has not embedded yet.\<close>

theorem generate_rag_without_embeddings_witness:
  "instance_of_OpenAILLM (configured_llm (Some fresh_retriever)) \<and>
   retriever (configured_llm (Some fresh_retriever)) = Attr (Some fresh_retriever) \<and>
   has_embedding fresh_retriever = Inr (PyBool False) \<and>
   (\<exists>tr. generate (configured_llm (Some fresh_retriever)) ''hi'' True 10 Map.empty =
           (Inl (EmbeddingError
              ''Embeddings have not been generated. Please call the embed() method first.''), tr) \<and>
         (\<forall>req. ChatCompletionsCreate req \<notin> set tr) \<and> (\<forall>query. Retrieve query \<notin> set tr))"
proof -
  have r: "retriever (configured_llm (Some fresh_retriever)) = Attr (Some fresh_retriever)"
    by (simp add: configured_llm_eq)
  have h: "has_embedding fresh_retriever = Inr (PyBool False)"
    by (simp add: fresh_retriever_def)
  from generate_rag_without_embeddings [OF instance_configured_llm r h, of "''hi''" 10 Map.empty]
    instance_configured_llm r h
  show ?thesis by simp
qed

subsection \<open>C7: the messages of a request with RAG\<close>

text \<open>
  C7: every request that \<^verbatim>\<open>generate\<close> with \<^verbatim>\<open>is_rag=True\<close> sends to the provider has
  exactly three messages, in this order: the system message, the user message with
  \<^verbatim>\<open>user_prompt\<close> verbatim, and an assistant message whose content is what
  \<^verbatim>\<open>retrieve(user_prompt)\<close> returned; the call has then asked \<^verbatim>\<open>has_embedding\<close>,
  called \<^verbatim>\<open>retrieve\<close> and sent this one request. And a call passes its preconditions
  and sends a request whenever, on a wrapper instance, the retriever is present, answers
  \<^verbatim>\<open>has_embedding()\<close> with \<^verbatim>\<open>True\<close> and returns from \<^verbatim>\<open>retrieve\<close>, and the keyword
  options do not repeat a named argument of the provider call.
\<close>

theorem generate_rag_messages:
  "(ChatCompletionsCreate req \<in> set (snd (generate self user_prompt True mt kwargs)) \<longrightarrow>
      (\<exists>r docs sc.
          retriever self = Attr (Some r) \<and> retrieve r user_prompt = Inr docs \<and>
          system_content self kwargs = Inr sc \<and>
          messages req =
            [PyDict [(''role'', PyStr ''system''), (''content'', sc)],
             PyDict [(''role'', PyStr ''user''), (''content'', PyStr user_prompt)],
             PyDict [(''role'', PyStr ''assistant''), (''content'', docs)]] \<and>
          snd (generate self user_prompt True mt kwargs) =
            [HasEmbedding, Retrieve user_prompt, ChatCompletionsCreate req])) \<and>
   (instance_of_OpenAILLM self \<and> retriever self = Attr (Some r') \<and>
    has_embedding r' = Inr (PyBool True) \<and> retrieve r' user_prompt = Inr docs' \<and>
    ''model'' \<notin> dom kwargs \<and> ''messages'' \<notin> dom kwargs \<and> ''max_tokens'' \<notin> dom kwargs \<longrightarrow>
      (\<exists>req'. snd (generate self user_prompt True mt kwargs) =
          [HasEmbedding, Retrieve user_prompt, ChatCompletionsCreate req']))"
proof (rule conjI; rule impI)
  assume m: "ChatCompletionsCreate req \<in> set (snd (generate self user_prompt True mt kwargs))"
  then have c: "check_client self = Inr ()"
    by (cases "check_client self") (simp_all add: generate_trace)
  with m have
    "ChatCompletionsCreate req \<in> set (snd (rag_completion self user_prompt mt kwargs))"
    by (simp add: generate_trace)
  from rag_completion_request [OF this] c
  show "\<exists>r docs sc.
          retriever self = Attr (Some r) \<and> retrieve r user_prompt = Inr docs \<and>
          system_content self kwargs = Inr sc \<and>
          messages req =
            [PyDict [(''role'', PyStr ''system''), (''content'', sc)],
             PyDict [(''role'', PyStr ''user''), (''content'', PyStr user_prompt)],
             PyDict [(''role'', PyStr ''assistant''), (''content'', docs)]] \<and>
          snd (generate self user_prompt True mt kwargs) =
            [HasEmbedding, Retrieve user_prompt, ChatCompletionsCreate req]"
    by (auto simp: generate_trace)
next
  assume "instance_of_OpenAILLM self \<and> retriever self = Attr (Some r') \<and>
    has_embedding r' = Inr (PyBool True) \<and> retrieve r' user_prompt = Inr docs' \<and>
    ''model'' \<notin> dom kwargs \<and> ''messages'' \<notin> dom kwargs \<and> ''max_tokens'' \<notin> dom kwargs"
  then show "\<exists>req'. snd (generate self user_prompt True mt kwargs) =
          [HasEmbedding, Retrieve user_prompt, ChatCompletionsCreate req']"
    using generate_rag_sends [of self r' "PyBool True" user_prompt docs' kwargs mt] by simp
qed

text \<open>C7 on the fixture configured with a retriever that has embedded.\<close>

theorem generate_rag_messages_witness:
  "ChatCompletionsCreate
        \<lparr>model = Some ''gpt-4'',
         messages = [PyDict [(''role'', PyStr ''system''), (''content'', PyNone)],
                     PyDict [(''role'', PyStr ''user''), (''content'', PyStr ''hi'')],
                     PyDict [(''role'', PyStr ''assistant''), (''content'', PyList [PyStr ''doc''])]],
         max_tokens = 10, options = Map.empty\<rparr>
     \<in> set (snd (generate (configured_llm (Some ready_retriever)) ''hi'' True 10 Map.empty)) \<and>
   instance_of_OpenAILLM (configured_llm (Some ready_retriever)) \<and>
   retriever (configured_llm (Some ready_retriever)) = Attr (Some ready_retriever) \<and>
   has_embedding ready_retriever = Inr (PyBool True) \<and>
   retrieve ready_retriever ''hi'' = Inr (PyList [PyStr ''doc'']) \<and>
   system_content (configured_llm (Some ready_retriever)) Map.empty = Inr PyNone \<and>
   ''model'' \<notin> dom (Map.empty :: kwargs) \<and> ''messages'' \<notin> dom (Map.empty :: kwargs) \<and>
   ''max_tokens'' \<notin> dom (Map.empty :: kwargs) \<and>
   (\<exists>req'. snd (generate (configured_llm (Some ready_retriever)) ''hi'' True 10 Map.empty) =
      [HasEmbedding, Retrieve ''hi'', ChatCompletionsCreate req'])"
proof -
  let ?req = "\<lparr>model = Some ''gpt-4'',
         messages = [PyDict [(''role'', PyStr ''system''), (''content'', PyNone)],
                     PyDict [(''role'', PyStr ''user''), (''content'', PyStr ''hi'')],
                     PyDict [(''role'', PyStr ''assistant''), (''content'', PyList [PyStr ''doc''])]],
         max_tokens = 10, options = Map.empty\<rparr>"
  have m: "ChatCompletionsCreate ?req
     \<in> set (snd (generate (configured_llm (Some ready_retriever)) ''hi'' True 10 Map.empty))"
    by (simp add: rag_trace)
  have r: "retriever (configured_llm (Some ready_retriever)) = Attr (Some ready_retriever)"
    by (simp add: configured_llm_eq)
  have d: "has_embedding ready_retriever = Inr (PyBool True)"
    "retrieve ready_retriever ''hi'' = Inr (PyList [PyStr ''doc''])"
    by (simp_all add: ready_retriever_def)
  have s: "system_content (configured_llm (Some ready_retriever)) Map.empty = Inr PyNone"
    by (simp add: configured_llm_eq system_content_def test_llm_def)
  from generate_rag_messages [of ?req "configured_llm (Some ready_retriever)" "''hi''" 10 Map.empty
      ready_retriever "PyList [PyStr ''doc'']"] m r d s instance_configured_llm
  show ?thesis by simp
qed

subsection \<open>C8: generation without RAG\<close>



subsection \<open>C9: the system_prompt option is used twice\<close>

text \<open>
  C9: when the keyword options of \<^verbatim>\<open>generate\<close> hold a \<^verbatim>\<open>system_prompt\<close> entry, every
  request the call sends has that entry's value as the content of its first message, the
  system message, and carries the keyword options unchanged, the \<^verbatim>\<open>system_prompt\<close>
  entry among them. And the request is sent, in both branches: on a wrapper instance
  whose keyword options do not repeat a named argument of the provider call,
  \<^verbatim>\<open>generate\<close> with \<^verbatim>\<open>is_rag=False\<close> sends exactly the request with the option's value
  in the system message and the options as they were given; with \<^verbatim>\<open>is_rag=True\<close>, a
  retriever present that answers \<^verbatim>\<open>has_embedding()\<close> with \<^verbatim>\<open>True\<close> and returns from
  \<^verbatim>\<open>retrieve\<close>, it sends exactly that request with the assistant message added.
\<close>

theorem generate_system_prompt_option_forwarded:
  assumes "kwargs ''system_prompt'' = Some v"
  shows
    "(ChatCompletionsCreate req \<in> set (snd (generate self user_prompt is_rag mt kwargs)) \<longrightarrow>
        (\<exists>rest. messages req = PyDict [(''role'', PyStr ''system''), (''content'', v)] # rest) \<and>
        options req = kwargs \<and> options req ''system_prompt'' = Some v) \<and>
     (instance_of_OpenAILLM self \<and> model_version self = Attr mv \<and>
      ''model'' \<notin> dom kwargs \<and> ''messages'' \<notin> dom kwargs \<and> ''max_tokens'' \<notin> dom kwargs \<longrightarrow>
        snd (generate self user_prompt False mt kwargs) =
          [ChatCompletionsCreate
             \<lparr>model = mv,
              messages = [PyDict [(''role'', PyStr ''system''), (''content'', v)],
                          PyDict [(''role'', PyStr ''user''), (''content'', PyStr user_prompt)]],
              max_tokens = mt, options = kwargs\<rparr>]) \<and>
     (instance_of_OpenAILLM self \<and> model_version self = Attr mv \<and>
      retriever self = Attr (Some r) \<and> has_embedding r = Inr (PyBool True) \<and>
      retrieve r user_prompt = Inr docs \<and>
      ''model'' \<notin> dom kwargs \<and> ''messages'' \<notin> dom kwargs \<and> ''max_tokens'' \<notin> dom kwargs \<longrightarrow>
        snd (generate self user_prompt True mt kwargs) =
          [HasEmbedding, Retrieve user_prompt,
           ChatCompletionsCreate
             \<lparr>model = mv,
              messages = [PyDict [(''role'', PyStr ''system''), (''content'', v)],
                          PyDict [(''role'', PyStr ''user''), (''content'', PyStr user_prompt)],
                          PyDict [(''role'', PyStr ''assistant''), (''content'', docs)]],
              max_tokens = mt, options = kwargs\<rparr>])"
proof -
  from assms have sc: "system_content self kwargs = Inr v"
    by (rule system_content_option)
  have sent: "(\<exists>rest. messages req = PyDict [(''role'', PyStr ''system''), (''content'', v)] # rest) \<and>
        options req = kwargs \<and> options req ''system_prompt'' = Some v"
    if m: "ChatCompletionsCreate req \<in> set (snd (generate self user_prompt is_rag mt kwargs))"
  proof -
    from m have c: "check_client self = Inr ()"
      by (cases "check_client self") (simp_all add: generate_trace)
    show ?thesis
    proof (cases is_rag)
      case True
      with m c have
        "ChatCompletionsCreate req \<in> set (snd (rag_completion self user_prompt mt kwargs))"
        by (simp add: generate_trace)
      from rag_completion_request [OF this] sc assms show ?thesis by auto
    next
      case False
      with m c have
        "ChatCompletionsCreate req \<in> set (snd (plain_completion self user_prompt mt kwargs))"
        by (simp add: generate_trace)
      from plain_completion_request [OF this] sc assms show ?thesis by auto
    qed
  qed
  have plain: "snd (generate self user_prompt False mt kwargs) =
          [ChatCompletionsCreate
             \<lparr>model = mv,
              messages = [PyDict [(''role'', PyStr ''system''), (''content'', v)],
                          PyDict [(''role'', PyStr ''user''), (''content'', PyStr user_prompt)]],
              max_tokens = mt, options = kwargs\<rparr>]"
    if "instance_of_OpenAILLM self \<and> model_version self = Attr mv \<and>
      ''model'' \<notin> dom kwargs \<and> ''messages'' \<notin> dom kwargs \<and> ''max_tokens'' \<notin> dom kwargs"
    using that generate_plain_trace [of self mv kwargs v user_prompt mt] sc by blast
  have rag: "snd (generate self user_prompt True mt kwargs) =
          [HasEmbedding, Retrieve user_prompt,
           ChatCompletionsCreate
             \<lparr>model = mv,
              messages = [PyDict [(''role'', PyStr ''system''), (''content'', v)],
                          PyDict [(''role'', PyStr ''user''), (''content'', PyStr user_prompt)],
                          PyDict [(''role'', PyStr ''assistant''), (''content'', docs)]],
              max_tokens = mt, options = kwargs\<rparr>]"
    if "instance_of_OpenAILLM self \<and> model_version self = Attr mv \<and>
      retriever self = Attr (Some r) \<and> has_embedding r = Inr (PyBool True) \<and>
      retrieve r user_prompt = Inr docs \<and>
      ''model'' \<notin> dom kwargs \<and> ''messages'' \<notin> dom kwargs \<and> ''max_tokens'' \<notin> dom kwargs"
    using that generate_rag_trace [of self mv kwargs v r user_prompt docs mt] sc by blast
  from sent plain rag show ?thesis by blast
qed

text \<open>
  C9 on the configured fixture, with the option \<^verbatim>\<open>system_prompt="Be brief."\<close>, without
  and with RAG.
\<close>

theorem generate_system_prompt_option_forwarded_witness:
  "[''system_prompt'' \<mapsto> PyStr ''Be brief.''] ''system_prompt'' = Some (PyStr ''Be brief.'') \<and>
   ''model'' \<notin> dom [''system_prompt'' \<mapsto> PyStr ''Be brief.''] \<and>
   ''messages'' \<notin> dom [''system_prompt'' \<mapsto> PyStr ''Be brief.''] \<and>
   ''max_tokens'' \<notin> dom [''system_prompt'' \<mapsto> PyStr ''Be brief.''] \<and>
   instance_of_OpenAILLM (configured_llm None) \<and>
   model_version (configured_llm None) = Attr (Some ''gpt-4'') \<and>
   snd (generate (configured_llm None) ''hi'' False 10
          [''system_prompt'' \<mapsto> PyStr ''Be brief.'']) =
     [ChatCompletionsCreate
        \<lparr>model = Some ''gpt-4'',
         messages = [PyDict [(''role'', PyStr ''system''), (''content'', PyStr ''Be brief.'')],
                     PyDict [(''role'', PyStr ''user''), (''content'', PyStr ''hi'')]],
         max_tokens = 10, options = [''system_prompt'' \<mapsto> PyStr ''Be brief.'']\<rparr>] \<and>
   instance_of_OpenAILLM (configured_llm (Some ready_retriever)) \<and>
   model_version (configured_llm (Some ready_retriever)) = Attr (Some ''gpt-4'') \<and>
   retriever (configured_llm (Some ready_retriever)) = Attr (Some ready_retriever) \<and>
   has_embedding ready_retriever = Inr (PyBool True) \<and>
   retrieve ready_retriever ''hi'' = Inr (PyList [PyStr ''doc'']) \<and>
   snd (generate (configured_llm (Some ready_retriever)) ''hi'' True 10
          [''system_prompt'' \<mapsto> PyStr ''Be brief.'']) =
     [HasEmbedding, Retrieve ''hi'',
      ChatCompletionsCreate
        \<lparr>model = Some ''gpt-4'',
         messages = [PyDict [(''role'', PyStr ''system''), (''content'', PyStr ''Be brief.'')],
                     PyDict [(''role'', PyStr ''user''), (''content'', PyStr ''hi'')],
                     PyDict [(''role'', PyStr ''assistant''), (''content'', PyList [PyStr ''doc''])]],
         max_tokens = 10, options = [''system_prompt'' \<mapsto> PyStr ''Be brief.'']\<rparr>] \<and>
   options
        \<lparr>model = Some ''gpt-4'',
         messages = [PyDict [(''role'', PyStr ''system''), (''content'', PyStr ''Be brief.'')],
                     PyDict [(''role'', PyStr ''user''), (''content'', PyStr ''hi'')],
                     PyDict [(''role'', PyStr ''assistant''), (''content'', PyList [PyStr ''doc''])]],
         max_tokens = 10, options = [''system_prompt'' \<mapsto> PyStr ''Be brief.'']\<rparr>
      ''system_prompt'' = Some (PyStr ''Be brief.'')"
proof -
  let ?kw = "[''system_prompt'' \<mapsto> PyStr ''Be brief.'']"
  have k: "?kw ''system_prompt'' = Some (PyStr ''Be brief.'')"
    by simp
  have d: "''model'' \<notin> dom ?kw" "''messages'' \<notin> dom ?kw" "''max_tokens'' \<notin> dom ?kw"
    by simp_all
  have p: "model_version (configured_llm None) = Attr (Some ''gpt-4'')"
    by (simp add: configured_llm_eq)
  have r: "model_version (configured_llm (Some ready_retriever)) = Attr (Some ''gpt-4'')"
    "retriever (configured_llm (Some ready_retriever)) = Attr (Some ready_retriever)"
    by (simp_all add: configured_llm_eq)
  have e: "has_embedding ready_retriever = Inr (PyBool True)"
    "retrieve ready_retriever ''hi'' = Inr (PyList [PyStr ''doc''])"
    by (simp_all add: ready_retriever_def)
  note plain = generate_system_prompt_option_forwarded [where kwargs = ?kw and v = "PyStr ''Be brief.''" and
      self = "configured_llm None" and user_prompt = "''hi''" and is_rag = False and
      mt = 10 and mv = "Some ''gpt-4''", OF k]
  note rag = generate_system_prompt_option_forwarded [where kwargs = ?kw and v = "PyStr ''Be brief.''" and
      self = "configured_llm (Some ready_retriever)" and user_prompt = "''hi''" and
      is_rag = True and mt = 10 and mv = "Some ''gpt-4''" and r = ready_retriever and
      docs = "PyList [PyStr ''doc'']", OF k]
  from plain rag k d p r e instance_configured_llm [of None]
    instance_configured_llm [of "Some ready_retriever"]
  show ?thesis by simp
qed

subsection \<open>C10: a constructed instance\<close>

text \<open>
  C10: when construction succeeds, the object has \<^verbatim>\<open>client\<close> and \<^verbatim>\<open>models\<close> set,
  \<^verbatim>\<open>model_name\<close> equal to the argument, and \<^verbatim>\<open>model_version\<close>, \<^verbatim>\<open>system_prompt\<close> and
  \<^verbatim>\<open>retriever\<close> equal to \<^verbatim>\<open>None\<close>; and on every wrapper instance \<^verbatim>\<open>_check_client\<close>,
  the first step of \<^verbatim>\<open>configure\<close>, \<^verbatim>\<open>embed\<close> and \<^verbatim>\<open>generate\<close>, passes: its error
  branch is unreachable.
\<close>

theorem constructed_instance_attributes:
  "(init env OpenAI name kwargs = Inr self0 \<longrightarrow>
      (\<exists>client_obj models_obj. client self0 = Attr client_obj \<and> models self0 = Attr models_obj) \<and>
      model_name self0 = Attr name \<and> model_version self0 = Attr None \<and>
      system_prompt self0 = Attr None \<and> retriever self0 = Attr None) \<and>
   (instance_of_OpenAILLM self \<longrightarrow> check_client self = Inr ())"
proof (rule conjI; rule impI)
  assume "init env OpenAI name kwargs = Inr self0"
  from init_fields [OF this]
  show "(\<exists>client_obj models_obj. client self0 = Attr client_obj \<and> models self0 = Attr models_obj) \<and>
      model_name self0 = Attr name \<and> model_version self0 = Attr None \<and>
      system_prompt self0 = Attr None \<and> retriever self0 = Attr None"
    by auto
next
  assume "instance_of_OpenAILLM self"
  then show "check_client self = Inr ()"
    using instance_attrs [of self] by (simp add: check_client_def)
qed

text \<open>C10 on the construction of the fixture.\<close>

theorem constructed_instance_attributes_witness:
  "init mock_env mock_OpenAI ''test-model'' Map.empty = Inr test_llm \<and>
   client test_llm = Attr mock_client \<and>
   model_name test_llm = Attr ''test-model'' \<and> model_version test_llm = Attr None \<and>
   system_prompt test_llm = Attr None \<and> retriever test_llm = Attr None \<and>
   instance_of_OpenAILLM test_llm \<and> check_client test_llm = Inr ()"
  using constructed_instance_attributes [of mock_env mock_OpenAI "''test-model''" Map.empty test_llm test_llm]
    init_test instance_test_llm
  by (simp add: test_llm_def)

end
